theory Spec2Isabelle
  imports Main "HOL-Library.Word" "HOL-Library.Sublist"
begin

section \<open>The conformance suite of conformance/utils/suite/suite.go\<close>

text \<open>
  The file declares the suite configuration, its constructor \<open>New\<close>, the procedure
  \<open>Setup\<close> and the per-test procedure \<open>ConformanceTest.Run\<close>. The procedures act on the
  test framework's \<open>*testing.T\<close> and on a cluster; the model returns, next to the
  updated suite, the list of calls a procedure made, in the order it made them, and the
  way the procedure ended.
\<close>

subsection \<open>Features and channels\<close>

text \<open>\<open>type ExemptFeature string\<close>, \<open>type SupportedFeature string\<close>.\<close>

type_synonym ExemptFeature = string
type_synonym SupportedFeature = string

definition ExemptReferencePolicy :: ExemptFeature where
  "ExemptReferencePolicy = ''ReferencePolicy''"

definition SupportReferencePolicy :: SupportedFeature where
  "SupportReferencePolicy = ''ReferencePolicy''"

text \<open>
  \<open>type GatewayChannel int\<close>: a signed machine integer. The code only compares channels
  and never computes with them, so the unbounded \<open>int\<close> agrees with Go's \<open>int\<close> on every
  value a channel can hold; negative values are values of the type.
\<close>

type_synonym GatewayChannel = int

definition ExperimentalChannel :: GatewayChannel where
  "ExperimentalChannel = 1"

definition StandardChannel :: GatewayChannel where
  "StandardChannel = 2"

subsection \<open>Collaborators\<close>

text \<open>
  Modelled from the spec: \<open>client.Client\<close> (controller-runtime) and the helpers
  \<open>GWCMustBeAccepted\<close>, \<open>Applier.MustApplyWithCleanup\<close> and \<open>NamespacesMustBeReady\<close> of
  conformance/utils/kubernetes are not among the sources. The spec describes them as an
  acceptance checker that blocks until the class is marked accepted and returns the
  controller identity, an applier that surfaces failures to the caller, and a readiness
  checker that blocks until the namespaces are ready or the bound elapses; a bound that
  is exceeded and a manifest that fails to apply fail the run. A client is modelled by
  how the cluster behind it answers: when (if ever) a class is accepted and by which
  controller, which manifest locations fail to apply, and when (if ever) a namespace is
  ready.
\<close>

record Client =
  acceptedAfter :: "string \<Rightarrow> (nat \<times> string) option"
  applyFails :: "string \<Rightarrow> bool"
  readyAfter :: "string \<Rightarrow> nat option"

text \<open>
  \<open>roundtripper.RoundTripper\<close> is an interface: a value is the package's
  \<open>DefaultRoundTripper{Debug}\<close> or some other implementation; \<open>nil\<close> is \<open>None\<close> in the
  fields below.
\<close>

datatype 'r RoundTripper = DefaultRoundTripper bool | OtherRoundTripper 'r

text \<open>\<open>kubernetes.Applier\<close>, with the two fields \<open>New\<close> fills in; a port is an \<open>int32\<close>.\<close>

record Applier =
  NamespaceLabels :: "string \<rightharpoonup> string"
  ValidUniqueListenerPorts :: "32 word list"

text \<open>
  Modelled from the spec: \<open>GWCMustBeAccepted\<close> is not among the sources. It returns the
  controller name when the class is accepted within the bound, and fails the run
  (\<open>None\<close>) otherwise.
\<close>

definition GWCMustBeAccepted :: "Client \<Rightarrow> string \<Rightarrow> nat \<Rightarrow> string option" where
  "GWCMustBeAccepted c gwcName timeoutSeconds =
     (case acceptedAfter c gwcName of
        None \<Rightarrow> None
      | Some (d, controllerName) \<Rightarrow>
          if d \<le> timeoutSeconds then Some controllerName else None)"

text \<open>
  Modelled from the spec: \<open>MustApplyWithCleanup\<close> is not among the sources. It is \<open>True\<close>
  when the resources at the location were applied and \<open>False\<close> when the application
  failed, which fails the run.
\<close>

definition MustApplyWithCleanup ::
  "Applier \<Rightarrow> Client \<Rightarrow> string \<Rightarrow> string \<Rightarrow> bool \<Rightarrow> bool" where
  "MustApplyWithCleanup a c location gcName cleanup = (\<not> applyFails c location)"

text \<open>
  Modelled from the spec: \<open>NamespacesMustBeReady\<close> is not among the sources. It is \<open>True\<close>
  when every namespace is ready within the bound and \<open>False\<close> when the bound elapses
  first, which fails the run.
\<close>

definition NamespacesMustBeReady :: "Client \<Rightarrow> string list \<Rightarrow> nat \<Rightarrow> bool" where
  "NamespacesMustBeReady c namespaces timeoutSeconds =
     list_all (\<lambda>ns. case readyAfter c ns of None \<Rightarrow> False | Some d \<Rightarrow> d \<le> timeoutSeconds)
       namespaces"

subsection \<open>The suite, its options and its constructor\<close>

record 'r ConformanceTestSuite =
  Client :: Client
  RoundTripper :: "'r RoundTripper option"
  GatewayClassName :: string
  ControllerName :: string
  Debug :: bool
  Cleanup :: bool
  BaseManifests :: string
  Applier :: Applier
  ExemptFeatures :: "ExemptFeature list"
  SupportedFeatures :: "SupportedFeature list"
  MinChannel :: GatewayChannel

record 'r Options =
  Client :: Client
  GatewayClassName :: string
  Debug :: bool
  RoundTripper :: "'r RoundTripper option"
  BaseManifests :: string
  NamespaceLabels :: "string \<rightharpoonup> string"
  ValidUniqueListenerPorts :: "32 word list"
  CleanupBaseResources :: bool
  ExemptFeatures :: "ExemptFeature list"
  SupportedFeatures :: "SupportedFeature list"
  MinChannel :: GatewayChannel

text \<open>
  \<open>New\<close>, statement by statement. The local \<open>roundTripper\<close> is defaulted and stored. The
  local \<open>MinChannel\<close> is defaulted too, but the composite literal stores \<open>s.MinChannel\<close>,
  so the local is bound here and not used again, as in the source. \<open>ControllerName\<close> is
  not named in the literal and is the empty string.
\<close>

definition New :: "'r Options \<Rightarrow> 'r ConformanceTestSuite" where
  "New s =
     (let roundTripper =
            (case Options.RoundTripper s of
               None \<Rightarrow> Some (DefaultRoundTripper (Options.Debug s))
             | Some r \<Rightarrow> Some r);
          MinChannel_local =
            (if Options.MinChannel s = 0 then StandardChannel else Options.MinChannel s);
          suite =
            \<lparr> ConformanceTestSuite.Client = Options.Client s,
              ConformanceTestSuite.RoundTripper = roundTripper,
              ConformanceTestSuite.GatewayClassName = Options.GatewayClassName s,
              ControllerName = [],
              ConformanceTestSuite.Debug = Options.Debug s,
              Cleanup = CleanupBaseResources s,
              ConformanceTestSuite.BaseManifests = Options.BaseManifests s,
              Applier =
                \<lparr> Applier.NamespaceLabels = Options.NamespaceLabels s,
                  Applier.ValidUniqueListenerPorts = Options.ValidUniqueListenerPorts s \<rparr>,
              ConformanceTestSuite.ExemptFeatures = Options.ExemptFeatures s,
              ConformanceTestSuite.SupportedFeatures = Options.SupportedFeatures s,
              ConformanceTestSuite.MinChannel = Options.MinChannel s \<rparr>
      in if ConformanceTestSuite.BaseManifests suite = []
         then suite\<lparr> ConformanceTestSuite.BaseManifests := ''base/manifests.yaml'' \<rparr>
         else suite)"

subsection \<open>Calls and endings\<close>

text \<open>
  What a procedure does to \<open>*testing.T\<close> and to the cluster is recorded as the list of
  the calls it makes. \<open>t.Skip\<close> takes its arguments as a list (it formats them as
  \<open>Println\<close> does), \<open>t.Skipf\<close> and \<open>t.Logf\<close> take a format and its arguments; the three
  helper calls are recorded with the arguments the source passes after \<open>t\<close> and the
  client.
\<close>

datatype arg = Str string | Chan GatewayChannel

datatype event =
    Parallel_call
  | Logf string "arg list"
  | Skip "arg list"
  | Skipf string "arg list"
  | GWCMustBeAccepted_call string nat
  | MustApplyWithCleanup_call string string bool
  | NamespacesMustBeReady_call "string list" nat
  | Test_call

text \<open>
  A procedure ends by returning, by \<open>t.Skip\<close>/\<open>t.Skipf\<close> (which mark the test skipped and
  stop it at once through \<open>runtime.Goexit\<close>), or by a helper failing the run.
\<close>

datatype ending = Returned | Skipped | Failed

fun is_Skip :: "event \<Rightarrow> bool" where
  "is_Skip (Skip args) = True"
| "is_Skip (Skipf fmt args) = True"
| "is_Skip e = False"

fun is_Skipf :: "event \<Rightarrow> bool" where
  "is_Skipf (Skipf fmt args) = True"
| "is_Skipf e = False"

fun is_Apply :: "event \<Rightarrow> bool" where
  "is_Apply (MustApplyWithCleanup_call location gcName cleanup) = True"
| "is_Apply e = False"

subsection \<open>Setup\<close>

text \<open>
  \<open>Setup\<close>: three steps, each logged first. A helper that fails the run stops the
  procedure where it stands; the assignment to \<open>suite.ControllerName\<close> happens only when
  \<open>GWCMustBeAccepted\<close> returns.
\<close>

definition Setup ::
  "'r ConformanceTestSuite \<Rightarrow> 'r ConformanceTestSuite \<times> event list \<times> ending" where
  "Setup suite =
     (let calls1 =
            [Logf ''Test Setup: Ensuring GatewayClass has been accepted'' [],
             GWCMustBeAccepted_call (ConformanceTestSuite.GatewayClassName suite) 180]
      in case GWCMustBeAccepted (ConformanceTestSuite.Client suite)
                (ConformanceTestSuite.GatewayClassName suite) 180 of
           None \<Rightarrow> (suite, calls1, Failed)
         | Some controllerName \<Rightarrow>
             (let suite = suite\<lparr> ControllerName := controllerName \<rparr>;
                  calls2 = calls1 @
                    [Logf ''Test Setup: Applying base manifests'' [],
                     MustApplyWithCleanup_call (ConformanceTestSuite.BaseManifests suite)
                       (ConformanceTestSuite.GatewayClassName suite) (Cleanup suite)]
              in if \<not> MustApplyWithCleanup (Applier suite) (ConformanceTestSuite.Client suite)
                        (ConformanceTestSuite.BaseManifests suite)
                        (ConformanceTestSuite.GatewayClassName suite) (Cleanup suite)
                 then (suite, calls2, Failed)
                 else
                   (let namespaces =
                          [''gateway-conformance-infra'',
                           ''gateway-conformance-app-backend'',
                           ''gateway-conformance-web-backend''];
                        calls3 = calls2 @
                          [Logf ''Test Setup: Ensuring Gateways and Pods from base manifests are ready'' [],
                           NamespacesMustBeReady_call namespaces 300]
                    in if NamespacesMustBeReady (ConformanceTestSuite.Client suite) namespaces 300
                       then (suite, calls3, Returned)
                       else (suite, calls3, Failed))))"

subsection \<open>A conformance test and its run\<close>

text \<open>
  The body \<open>Test\<close> is any function of the suite; of what it does, the model keeps how it
  ends.
\<close>

record 'r ConformanceTest =
  ShortName :: string
  Description :: string
  Exemptions :: "ExemptFeature list"
  Features :: "SupportedFeature list"
  Manifests :: "string list"
  Slow :: bool
  Parallel :: bool
  Test :: "'r ConformanceTestSuite \<Rightarrow> ending"
  MinChannel :: GatewayChannel

text \<open>
  The loop over \<open>test.Features\<close>: the first feature that \<open>slices.Contains\<close> does not find
  among the suite's supported features skips the test.
\<close>

fun checkFeatures :: "string \<Rightarrow> SupportedFeature list \<Rightarrow> SupportedFeature list \<Rightarrow> event option" where
  "checkFeatures shortName supported [] = None"
| "checkFeatures shortName supported (feature # features) =
     (if feature \<notin> set supported
      then Some (Skip [Str ''Skipping %s: suite does not support %s'', Str shortName, Str feature])
      else checkFeatures shortName supported features)"

text \<open>
  The loop over \<open>test.Exemptions\<close>: the first one that is not among the suite's exempt
  features skips the test.
\<close>

fun checkExemptions :: "string \<Rightarrow> ExemptFeature list \<Rightarrow> ExemptFeature list \<Rightarrow> event option" where
  "checkExemptions shortName exempt [] = None"
| "checkExemptions shortName exempt (feature # features) =
     (if feature \<notin> set exempt
      then Some (Skip [Str ''Skipping %s: suite exempts %s'', Str shortName, Str feature])
      else checkExemptions shortName exempt features)"

text \<open>
  The loop over \<open>test.Manifests\<close>: each location is logged and applied, with cleanup
  \<open>true\<close>; an application that fails stops the loop and the run.
\<close>

fun applyManifests :: "'r ConformanceTestSuite \<Rightarrow> string list \<Rightarrow> event list \<times> ending" where
  "applyManifests suite [] = ([], Returned)"
| "applyManifests suite (manifestLocation # locations) =
     (let calls =
            [Logf ''Applying %s'' [Str manifestLocation],
             MustApplyWithCleanup_call manifestLocation
               (ConformanceTestSuite.GatewayClassName suite) True]
      in if MustApplyWithCleanup (Applier suite) (ConformanceTestSuite.Client suite)
              manifestLocation (ConformanceTestSuite.GatewayClassName suite) True
         then (case applyManifests suite locations of
                 (calls', e) \<Rightarrow> (calls @ calls', e))
         else (calls, Failed))"

text \<open>\<open>ConformanceTest.Run\<close>.\<close>

definition Run :: "'r ConformanceTest \<Rightarrow> 'r ConformanceTestSuite \<Rightarrow> event list \<times> ending" where
  "Run test suite =
     (let parallel = (if Parallel test then [Parallel_call] else [])
      in case checkFeatures (ShortName test) (ConformanceTestSuite.SupportedFeatures suite)
                (Features test) of
           Some skip \<Rightarrow> (parallel @ [skip], Skipped)
         | None \<Rightarrow>
             (case checkExemptions (ShortName test) (ConformanceTestSuite.ExemptFeatures suite)
                     (Exemptions test) of
                Some skip \<Rightarrow> (parallel @ [skip], Skipped)
              | None \<Rightarrow>
                  if ConformanceTest.MinChannel test < ConformanceTestSuite.MinChannel suite
                  then (parallel @
                          [Skipf ''Skipping %s: only testing %s channel''
                             [Str (ShortName test), Chan (ConformanceTestSuite.MinChannel suite)]],
                        Skipped)
                  else (case applyManifests suite (Manifests test) of
                          (calls, e) \<Rightarrow>
                            if e = Failed then (parallel @ calls, Failed)
                            else (parallel @ calls @ [Test_call], Test test suite))))"

subsection \<open>Concrete clients, suites and tests\<close>

text \<open>
  A cluster that accepts the class \<open>example-class\<close> after 12 time units, cannot apply
  the location \<open>tests/missing.yaml\<close> and has every namespace ready after 30 time units;
  and one that accepts the class only after 200 time units.
\<close>

definition exampleClient :: Client where
  "exampleClient =
     \<lparr> acceptedAfter =
         (\<lambda>gwcName. if gwcName = ''example-class''
            then Some (12, ''example.net/gateway-controller'') else None),
       applyFails = (\<lambda>location. location = ''tests/missing.yaml''),
       readyAfter = (\<lambda>ns. Some 30) \<rparr>"

definition slowClient :: Client where
  "slowClient =
     exampleClient\<lparr> acceptedAfter := (\<lambda>gwcName. Some (200, ''example.net/gateway-controller'')) \<rparr>"

text \<open>Options with every field but the client and the class name left at its zero value.\<close>

definition unsetOptions :: "unit Options" where
  "unsetOptions =
     \<lparr> Options.Client = exampleClient,
       Options.GatewayClassName = ''example-class'',
       Options.Debug = False,
       Options.RoundTripper = None,
       Options.BaseManifests = [],
       Options.NamespaceLabels = Map.empty,
       Options.ValidUniqueListenerPorts = [],
       CleanupBaseResources = False,
       Options.ExemptFeatures = [],
       Options.SupportedFeatures = [],
       Options.MinChannel = 0 \<rparr>"

definition standardSuite :: "unit ConformanceTestSuite" where
  "standardSuite = New (unsetOptions\<lparr> Options.MinChannel := StandardChannel \<rparr>)"

definition experimentalSuite :: "unit ConformanceTestSuite" where
  "experimentalSuite = New (unsetOptions\<lparr> Options.MinChannel := ExperimentalChannel \<rparr>)"

definition slowSuite :: "unit ConformanceTestSuite" where
  "slowSuite = New (unsetOptions\<lparr> Options.Client := slowClient \<rparr>)"

definition supportingSuite :: "unit ConformanceTestSuite" where
  "supportingSuite =
     New (unsetOptions\<lparr> Options.SupportedFeatures := [SupportReferencePolicy],
                         Options.MinChannel := StandardChannel \<rparr>)"

text \<open>
  A standard-channel test with one manifest and no feature requirements; the same test
  with a manifest that cannot be applied; the same test on the experimental channel; and
  an experimental test that requires and is exempt-gated on \<open>ReferencePolicy\<close>.
\<close>

definition simpleTest :: "unit ConformanceTest" where
  "simpleTest =
     \<lparr> ShortName = ''HTTPRouteSimple'',
       Description = ''A simple route'',
       Exemptions = [],
       Features = [],
       Manifests = [''tests/simple.yaml''],
       Slow = False,
       Parallel = True,
       Test = (\<lambda>suite. Returned),
       ConformanceTest.MinChannel = StandardChannel \<rparr>"

definition missingManifestTest :: "unit ConformanceTest" where
  "missingManifestTest = simpleTest\<lparr> Manifests := [''tests/missing.yaml''] \<rparr>"

definition experimentalTest :: "unit ConformanceTest" where
  "experimentalTest = simpleTest\<lparr> ConformanceTest.MinChannel := ExperimentalChannel \<rparr>"

definition referencePolicyTest :: "unit ConformanceTest" where
  "referencePolicyTest =
     \<lparr> ShortName = ''HTTPRouteReferencePolicy'',
       Description = ''A cross-namespace reference'',
       Exemptions = [ExemptReferencePolicy],
       Features = [SupportReferencePolicy],
       Manifests = [''tests/reference-policy.yaml''],
       Slow = False,
       Parallel = False,
       Test = (\<lambda>suite. Returned),
       ConformanceTest.MinChannel = ExperimentalChannel \<rparr>"

lemmas example_defs =
  simpleTest_def missingManifestTest_def experimentalTest_def referencePolicyTest_def
  standardSuite_def experimentalSuite_def slowSuite_def supportingSuite_def
  unsetOptions_def exampleClient_def slowClient_def New_def
  StandardChannel_def ExperimentalChannel_def
  ExemptReferencePolicy_def SupportReferencePolicy_def MustApplyWithCleanup_def
  GWCMustBeAccepted_def NamespacesMustBeReady_def Let_def

section \<open>Properties of the constructor\<close>

lemma New_MinChannel:
  "ConformanceTestSuite.MinChannel (New s) = Options.MinChannel s"
  by (simp add: New_def Let_def)

text \<open>
  C2: for options whose channel is unset (the zero value), the suite that \<open>New\<close> returns
  is claimed to have the standard channel as its \<open>MinChannel\<close>. The code defaults a local
  variable and then stores the field of the options: on the options that leave
  everything unset, the suite's \<open>MinChannel\<close> is 0, which is not the standard channel.
\<close>

theorem New_MinChannel_unset_stays_zero:
  "Options.MinChannel unsetOptions = 0 \<and>
   ConformanceTestSuite.MinChannel (New unsetOptions) = 0 \<and>
   ConformanceTestSuite.MinChannel (New unsetOptions) \<noteq> StandardChannel"
  by (simp add: New_MinChannel unsetOptions_def StandardChannel_def)

text \<open>
  C7: when the manifest path of the options is the empty string, the suite that \<open>New\<close>
  returns has the base manifests \<open>base/manifests.yaml\<close>; a non-empty path is kept as
  given.
\<close>

theorem New_BaseManifests_default:
  "ConformanceTestSuite.BaseManifests (New s) =
     (if Options.BaseManifests s = [] then ''base/manifests.yaml''
      else Options.BaseManifests s)"
  by (simp add: New_def Let_def)

text \<open>
  C9: when the round-tripper of the options is nil, the suite that \<open>New\<close> returns has a
  round-tripper that is not nil: the default one, carrying the debug flag of the
  options; a round-tripper that is provided is used as given.
\<close>

theorem New_RoundTripper_default:
  "ConformanceTestSuite.RoundTripper (New s) =
     Some (case Options.RoundTripper s of
             None \<Rightarrow> DefaultRoundTripper (Options.Debug s)
           | Some r \<Rightarrow> r)"
  by (simp add: New_def Let_def split: option.splits)

section \<open>The loops of the per-test run\<close>

lemma find_Some_set:
  "find P xs = Some x \<Longrightarrow> x \<in> set xs \<and> P x"
  by (induction xs) (simp_all split: if_splits)

lemma find_missing:
  assumes "\<not> set xs \<subseteq> set ys"
  shows "\<exists>x. find (\<lambda>x. x \<notin> set ys) xs = Some x \<and> x \<in> set xs \<and> x \<notin> set ys"
proof (cases "find (\<lambda>x. x \<notin> set ys) xs")
  case None
  then have "set xs \<subseteq> set ys"
    by (simp add: find_None_iff subset_iff)
  with assms show ?thesis by simp
next
  case (Some x)
  then show ?thesis using find_Some_set [OF Some] by simp
qed

lemma checkFeatures_find:
  "checkFeatures shortName supported features =
     map_option
       (\<lambda>feature. Skip [Str ''Skipping %s: suite does not support %s'', Str shortName, Str feature])
       (find (\<lambda>feature. feature \<notin> set supported) features)"
  by (induction features) simp_all

lemma checkExemptions_find:
  "checkExemptions shortName exempt features =
     map_option
       (\<lambda>feature. Skip [Str ''Skipping %s: suite exempts %s'', Str shortName, Str feature])
       (find (\<lambda>feature. feature \<notin> set exempt) features)"
  by (induction features) simp_all

lemma checkFeatures_None_iff:
  "checkFeatures shortName supported features = None \<longleftrightarrow> set features \<subseteq> set supported"
  by (induction features) simp_all

lemma checkExemptions_None_iff:
  "checkExemptions shortName exempt features = None \<longleftrightarrow> set features \<subseteq> set exempt"
  by (induction features) simp_all

lemma applyManifests_ending:
  "snd (applyManifests suite locations) =
     (if list_all (\<lambda>location. \<not> applyFails (ConformanceTestSuite.Client suite) location) locations
      then Returned else Failed)"
  by (induction locations) (auto simp: MustApplyWithCleanup_def Let_def split: prod.splits)

lemma applyManifests_no_Skip:
  "\<not> list_ex is_Skip (fst (applyManifests suite locations))"
  by (induction locations) (simp_all add: Let_def split_beta)

lemma applyManifests_no_Skipf:
  "\<not> list_ex is_Skipf (fst (applyManifests suite locations))"
  by (induction locations) (simp_all add: Let_def split_beta)

lemma applyManifests_no_Test_call:
  "Test_call \<notin> set (fst (applyManifests suite locations))"
  by (induction locations) (simp_all add: Let_def split_beta)

section \<open>The four ways through the per-test run\<close>

text \<open>
  \<open>Run\<close> ends in the first of its checks that fails, and otherwise applies the manifests
  and calls the body. The four lemmas give the whole result in each case.
\<close>

lemma Run_features_skip:
  assumes "find (\<lambda>feature. feature \<notin> set (ConformanceTestSuite.SupportedFeatures suite))
             (Features test) = Some feature"
  shows "Run test suite =
     ((if Parallel test then [Parallel_call] else []) @
        [Skip [Str ''Skipping %s: suite does not support %s'', Str (ShortName test), Str feature]],
      Skipped)"
  using assms by (simp add: Run_def checkFeatures_find)

lemma Run_exemptions_skip:
  assumes "set (Features test) \<subseteq> set (ConformanceTestSuite.SupportedFeatures suite)"
    and "find (\<lambda>feature. feature \<notin> set (ConformanceTestSuite.ExemptFeatures suite))
           (Exemptions test) = Some feature"
  shows "Run test suite =
     ((if Parallel test then [Parallel_call] else []) @
        [Skip [Str ''Skipping %s: suite exempts %s'', Str (ShortName test), Str feature]],
      Skipped)"
proof -
  have "checkFeatures (ShortName test) (ConformanceTestSuite.SupportedFeatures suite)
          (Features test) = None"
    using assms(1) by (simp add: checkFeatures_None_iff)
  then show ?thesis using assms(2) by (simp add: Run_def checkExemptions_find)
qed

lemma Run_channel_skip:
  assumes "set (Features test) \<subseteq> set (ConformanceTestSuite.SupportedFeatures suite)"
    and "set (Exemptions test) \<subseteq> set (ConformanceTestSuite.ExemptFeatures suite)"
    and "ConformanceTest.MinChannel test < ConformanceTestSuite.MinChannel suite"
  shows "Run test suite =
     ((if Parallel test then [Parallel_call] else []) @
        [Skipf ''Skipping %s: only testing %s channel''
           [Str (ShortName test), Chan (ConformanceTestSuite.MinChannel suite)]],
      Skipped)"
proof -
  have "checkFeatures (ShortName test) (ConformanceTestSuite.SupportedFeatures suite)
          (Features test) = None"
    using assms(1) by (simp add: checkFeatures_None_iff)
  moreover have "checkExemptions (ShortName test) (ConformanceTestSuite.ExemptFeatures suite)
          (Exemptions test) = None"
    using assms(2) by (simp add: checkExemptions_None_iff)
  ultimately show ?thesis using assms(3) by (simp add: Run_def)
qed

lemma Run_gates_passed:
  assumes "set (Features test) \<subseteq> set (ConformanceTestSuite.SupportedFeatures suite)"
    and "set (Exemptions test) \<subseteq> set (ConformanceTestSuite.ExemptFeatures suite)"
    and "\<not> ConformanceTest.MinChannel test < ConformanceTestSuite.MinChannel suite"
  shows "Run test suite =
     (if snd (applyManifests suite (Manifests test)) = Failed
      then ((if Parallel test then [Parallel_call] else []) @
              fst (applyManifests suite (Manifests test)),
            Failed)
      else ((if Parallel test then [Parallel_call] else []) @
              fst (applyManifests suite (Manifests test)) @ [Test_call],
            Test test suite))"
proof -
  have "checkFeatures (ShortName test) (ConformanceTestSuite.SupportedFeatures suite)
          (Features test) = None"
    using assms(1) by (simp add: checkFeatures_None_iff)
  moreover have "checkExemptions (ShortName test) (ConformanceTestSuite.ExemptFeatures suite)
          (Exemptions test) = None"
    using assms(2) by (simp add: checkExemptions_None_iff)
  ultimately show ?thesis using assms(3) by (simp add: Run_def split: prod.splits)
qed

lemma Run_cases [case_names features exemptions channel passed]:
  obtains
    (features) feature where
      "find (\<lambda>feature. feature \<notin> set (ConformanceTestSuite.SupportedFeatures suite))
         (Features test) = Some feature"
      "\<not> set (Features test) \<subseteq> set (ConformanceTestSuite.SupportedFeatures suite)"
  | (exemptions) feature where
      "set (Features test) \<subseteq> set (ConformanceTestSuite.SupportedFeatures suite)"
      "find (\<lambda>feature. feature \<notin> set (ConformanceTestSuite.ExemptFeatures suite))
         (Exemptions test) = Some feature"
      "\<not> set (Exemptions test) \<subseteq> set (ConformanceTestSuite.ExemptFeatures suite)"
  | (channel)
      "set (Features test) \<subseteq> set (ConformanceTestSuite.SupportedFeatures suite)"
      "set (Exemptions test) \<subseteq> set (ConformanceTestSuite.ExemptFeatures suite)"
      "ConformanceTest.MinChannel test < ConformanceTestSuite.MinChannel suite"
  | (passed)
      "set (Features test) \<subseteq> set (ConformanceTestSuite.SupportedFeatures suite)"
      "set (Exemptions test) \<subseteq> set (ConformanceTestSuite.ExemptFeatures suite)"
      "\<not> ConformanceTest.MinChannel test < ConformanceTestSuite.MinChannel suite"
  using find_missing [of "Features test" "ConformanceTestSuite.SupportedFeatures suite"]
    find_missing [of "Exemptions test" "ConformanceTestSuite.ExemptFeatures suite"]
  by blast

section \<open>Which tests run\<close>

text \<open>
  C1, as amended: for every test and suite, the per-test run skips the test exactly when
  one of the three conditions fails (every required feature of the test is among the
  suite's supported features, every exemption feature of the test is among the suite's
  exempt features, the test's minimum channel is greater than or equal to the suite's),
  and the body of the test is called exactly when the three conditions hold and,
  moreover, every manifest the test lists is applied without failure. As stated, with
  the body called whenever the three conditions hold, the claim fails for a test whose
  manifest cannot be applied: the run fails before the body is reached.
\<close>

theorem Run_executes_body_iff:
  "(Test_call \<in> set (fst (Run test suite)) \<longleftrightarrow>
      set (Features test) \<subseteq> set (ConformanceTestSuite.SupportedFeatures suite) \<and>
      set (Exemptions test) \<subseteq> set (ConformanceTestSuite.ExemptFeatures suite) \<and>
      ConformanceTestSuite.MinChannel suite \<le> ConformanceTest.MinChannel test \<and>
      list_all (\<lambda>location. \<not> applyFails (ConformanceTestSuite.Client suite) location)
        (Manifests test))
   \<and> (list_ex is_Skip (fst (Run test suite)) \<longleftrightarrow>
      \<not> (set (Features test) \<subseteq> set (ConformanceTestSuite.SupportedFeatures suite) \<and>
         set (Exemptions test) \<subseteq> set (ConformanceTestSuite.ExemptFeatures suite) \<and>
         ConformanceTestSuite.MinChannel suite \<le> ConformanceTest.MinChannel test))"
proof (cases rule: Run_cases [of suite test])
  case (features feature)
  then show ?thesis by (simp add: Run_features_skip)
next
  case (exemptions feature)
  then show ?thesis by (simp add: Run_exemptions_skip)
next
  case channel
  then show ?thesis by (simp add: Run_channel_skip)
next
  case passed
  then show ?thesis
    using applyManifests_ending [of suite "Manifests test"]
      applyManifests_no_Skip [of suite "Manifests test"]
      applyManifests_no_Test_call [of suite "Manifests test"]
    by (simp add: Run_gates_passed)
qed

theorem Run_executes_body_iff_witness:
  "Test_call \<in> set (fst (Run simpleTest standardSuite)) \<and>
   \<not> list_ex is_Skip (fst (Run simpleTest standardSuite)) \<and>
   list_ex is_Skip (fst (Run experimentalTest standardSuite)) \<and>
   Test_call \<notin> set (fst (Run experimentalTest standardSuite))"
  using Run_executes_body_iff [of simpleTest standardSuite]
    Run_executes_body_iff [of experimentalTest standardSuite]
  by (simp add: example_defs)

theorem Run_executes_body_counterexample:
  "set (Features missingManifestTest) \<subseteq> set (ConformanceTestSuite.SupportedFeatures standardSuite) \<and>
   set (Exemptions missingManifestTest) \<subseteq> set (ConformanceTestSuite.ExemptFeatures standardSuite) \<and>
   ConformanceTestSuite.MinChannel standardSuite \<le> ConformanceTest.MinChannel missingManifestTest \<and>
   Test_call \<notin> set (fst (Run missingManifestTest standardSuite)) \<and>
   \<not> list_ex is_Skip (fst (Run missingManifestTest standardSuite)) \<and>
   snd (Run missingManifestTest standardSuite) = Failed"
  by (simp add: Run_def example_defs)

text \<open>
  C3, as amended: the channel check, which is reached once the two feature checks have
  passed and is the only caller of \<open>t.Skipf\<close>, skips the test exactly when the test's
  minimum channel is strictly less than the suite's. As stated (skip when the test's
  channel exceeds the suite's) the claim fails for a standard-channel test under an
  experimental-channel suite, which runs.
\<close>

theorem Run_channel_gate:
  "list_ex is_Skipf (fst (Run test suite)) \<longleftrightarrow>
     set (Features test) \<subseteq> set (ConformanceTestSuite.SupportedFeatures suite) \<and>
     set (Exemptions test) \<subseteq> set (ConformanceTestSuite.ExemptFeatures suite) \<and>
     ConformanceTest.MinChannel test < ConformanceTestSuite.MinChannel suite"
proof (cases rule: Run_cases [of suite test])
  case (features feature)
  then show ?thesis by (simp add: Run_features_skip)
next
  case (exemptions feature)
  then show ?thesis by (simp add: Run_exemptions_skip)
next
  case channel
  then show ?thesis by (simp add: Run_channel_skip)
next
  case passed
  then show ?thesis
    using applyManifests_no_Skipf [of suite "Manifests test"]
    by (simp add: Run_gates_passed)
qed

theorem Run_channel_gate_witness:
  "list_ex is_Skipf (fst (Run experimentalTest standardSuite)) \<and>
   \<not> list_ex is_Skipf (fst (Run simpleTest standardSuite))"
  using Run_channel_gate [of experimentalTest standardSuite]
    Run_channel_gate [of simpleTest standardSuite]
  by (simp add: example_defs)

theorem Run_channel_gate_counterexample:
  "ConformanceTestSuite.MinChannel experimentalSuite < ConformanceTest.MinChannel simpleTest \<and>
   \<not> list_ex is_Skip (fst (Run simpleTest experimentalSuite)) \<and>
   Test_call \<in> set (fst (Run simpleTest experimentalSuite))"
  by (simp add: Run_def example_defs)

text \<open>
  C4: when one of the three checks fails for a test under a suite, the run applies no
  manifest of the test: it skips, and neither an application nor the body is reached.
\<close>

theorem Run_skip_applies_nothing:
  assumes "\<not> (set (Features test) \<subseteq> set (ConformanceTestSuite.SupportedFeatures suite) \<and>
             set (Exemptions test) \<subseteq> set (ConformanceTestSuite.ExemptFeatures suite) \<and>
             ConformanceTestSuite.MinChannel suite \<le> ConformanceTest.MinChannel test)"
  shows "\<not> list_ex is_Apply (fst (Run test suite)) \<and>
         Test_call \<notin> set (fst (Run test suite)) \<and>
         list_ex is_Skip (fst (Run test suite)) \<and>
         snd (Run test suite) = Skipped"
proof (cases rule: Run_cases [of suite test])
  case (features feature)
  then show ?thesis by (simp add: Run_features_skip)
next
  case (exemptions feature)
  then show ?thesis by (simp add: Run_exemptions_skip)
next
  case channel
  then show ?thesis by (simp add: Run_channel_skip)
next
  case passed
  with assms show ?thesis by simp
qed

theorem Run_skip_applies_nothing_witness:
  "Manifests referencePolicyTest = [''tests/reference-policy.yaml''] \<and>
   \<not> set (Features referencePolicyTest) \<subseteq> set (ConformanceTestSuite.SupportedFeatures standardSuite) \<and>
   \<not> list_ex is_Apply (fst (Run referencePolicyTest standardSuite)) \<and>
   Test_call \<notin> set (fst (Run referencePolicyTest standardSuite)) \<and>
   snd (Run referencePolicyTest standardSuite) = Skipped"
  using Run_skip_applies_nothing [of referencePolicyTest standardSuite]
  by (simp add: example_defs)

text \<open>
  C5: the checks are made in the order required features, exemption features, channel,
  and the first that fails ends the run. When a required feature is unsupported, the
  whole run is the skip of the first such feature, whatever the exemptions and the
  channel are; when the required features pass and an exemption is missing, it is the
  skip for the first such exemption, whatever the channel is; the channel skip needs
  both to pass. In each case nothing follows the skip.
\<close>

theorem Run_gate_order:
  "(\<not> set (Features test) \<subseteq> set (ConformanceTestSuite.SupportedFeatures suite) \<longrightarrow>
      (\<exists>feature.
         find (\<lambda>feature. feature \<notin> set (ConformanceTestSuite.SupportedFeatures suite))
           (Features test) = Some feature \<and>
         Run test suite =
           ((if Parallel test then [Parallel_call] else []) @
              [Skip [Str ''Skipping %s: suite does not support %s'',
                     Str (ShortName test), Str feature]],
            Skipped)))
   \<and> (set (Features test) \<subseteq> set (ConformanceTestSuite.SupportedFeatures suite) \<and>
      \<not> set (Exemptions test) \<subseteq> set (ConformanceTestSuite.ExemptFeatures suite) \<longrightarrow>
      (\<exists>feature.
         find (\<lambda>feature. feature \<notin> set (ConformanceTestSuite.ExemptFeatures suite))
           (Exemptions test) = Some feature \<and>
         Run test suite =
           ((if Parallel test then [Parallel_call] else []) @
              [Skip [Str ''Skipping %s: suite exempts %s'',
                     Str (ShortName test), Str feature]],
            Skipped)))
   \<and> (set (Features test) \<subseteq> set (ConformanceTestSuite.SupportedFeatures suite) \<and>
      set (Exemptions test) \<subseteq> set (ConformanceTestSuite.ExemptFeatures suite) \<and>
      ConformanceTest.MinChannel test < ConformanceTestSuite.MinChannel suite \<longrightarrow>
      Run test suite =
        ((if Parallel test then [Parallel_call] else []) @
           [Skipf ''Skipping %s: only testing %s channel''
              [Str (ShortName test), Chan (ConformanceTestSuite.MinChannel suite)]],
         Skipped))"
proof (cases rule: Run_cases [of suite test])
  case (features feature)
  then show ?thesis by (simp add: Run_features_skip)
next
  case (exemptions feature)
  then show ?thesis by (simp add: Run_exemptions_skip)
next
  case channel
  then show ?thesis by (simp add: Run_channel_skip)
next
  case passed
  then show ?thesis by simp
qed

theorem Run_gate_order_witness:
  "\<not> set (Features referencePolicyTest) \<subseteq> set (ConformanceTestSuite.SupportedFeatures standardSuite) \<and>
   \<not> set (Exemptions referencePolicyTest) \<subseteq> set (ConformanceTestSuite.ExemptFeatures standardSuite) \<and>
   ConformanceTest.MinChannel referencePolicyTest < ConformanceTestSuite.MinChannel standardSuite \<and>
   Run referencePolicyTest standardSuite =
     ([Skip [Str ''Skipping %s: suite does not support %s'',
             Str ''HTTPRouteReferencePolicy'', Str ''ReferencePolicy'']],
      Skipped) \<and>
   set (Features referencePolicyTest) \<subseteq> set (ConformanceTestSuite.SupportedFeatures supportingSuite) \<and>
   \<not> set (Exemptions referencePolicyTest) \<subseteq> set (ConformanceTestSuite.ExemptFeatures supportingSuite) \<and>
   ConformanceTest.MinChannel referencePolicyTest < ConformanceTestSuite.MinChannel supportingSuite \<and>
   Run referencePolicyTest supportingSuite =
     ([Skip [Str ''Skipping %s: suite exempts %s'',
             Str ''HTTPRouteReferencePolicy'', Str ''ReferencePolicy'']],
      Skipped)"
  using Run_gate_order [of referencePolicyTest standardSuite]
    Run_gate_order [of referencePolicyTest supportingSuite]
  by (simp add: example_defs)

text \<open>
  C10: under a suite whose \<open>MinChannel\<close> is zero, as \<open>New\<close> produces it from options that
  leave the channel unset, the channel check skips no test whose channel ordinal is not
  below zero: the check compares \<open>test.MinChannel < suite.MinChannel\<close>.
\<close>

theorem Run_unset_channel_never_skips:
  "(ConformanceTestSuite.MinChannel suite = 0 \<and> 0 \<le> ConformanceTest.MinChannel test \<longrightarrow>
      \<not> list_ex is_Skipf (fst (Run test suite)))
   \<and> (Options.MinChannel s = 0 \<and> 0 \<le> ConformanceTest.MinChannel test \<longrightarrow>
      \<not> list_ex is_Skipf (fst (Run test (New s))))"
proof -
  have gate: "\<not> list_ex is_Skipf (fst (Run test suite))"
    if "ConformanceTestSuite.MinChannel suite = 0" "0 \<le> ConformanceTest.MinChannel test"
    for suite :: "'a ConformanceTestSuite"
  proof (cases rule: Run_cases [of suite test])
    case (features feature)
    then show ?thesis by (simp add: Run_features_skip)
  next
    case (exemptions feature)
    then show ?thesis by (simp add: Run_exemptions_skip)
  next
    case channel
    with that show ?thesis by simp
  next
    case passed
    then show ?thesis
      using applyManifests_no_Skipf [of suite "Manifests test"]
      by (simp add: Run_gates_passed)
  qed
  show ?thesis
    using gate [of suite] gate [of "New s"] by (simp add: New_MinChannel)
qed

theorem Run_unset_channel_never_skips_witness:
  "Options.MinChannel unsetOptions = 0 \<and>
   ConformanceTestSuite.MinChannel (New unsetOptions) = 0 \<and>
   0 \<le> ConformanceTest.MinChannel experimentalTest \<and>
   \<not> list_ex is_Skipf (fst (Run experimentalTest (New unsetOptions)))"
  using Run_unset_channel_never_skips [of "New unsetOptions" experimentalTest unsetOptions]
  by (simp add: New_MinChannel unsetOptions_def experimentalTest_def simpleTest_def
      ExperimentalChannel_def)

text \<open>
  The premise on the test's ordinal is needed: \<open>GatewayChannel\<close> is a signed integer, and
  a test with a negative ordinal is skipped by a suite whose \<open>MinChannel\<close> is zero.
\<close>

lemma Run_negative_channel_is_skipped:
  "ConformanceTestSuite.MinChannel (New unsetOptions) = 0 \<and>
   Run (simpleTest\<lparr> ConformanceTest.MinChannel := - 1 \<rparr>) (New unsetOptions) =
     ([Parallel_call,
       Skipf ''Skipping %s: only testing %s channel'' [Str ''HTTPRouteSimple'', Chan 0]],
      Skipped)"
  by (simp add: Run_def example_defs)

section \<open>Setup\<close>

text \<open>
  C6: when the class is not accepted within the bound of 180, \<open>Setup\<close> fails the run
  after the acceptance check and applies no base manifests. In every run of \<open>Setup\<close> the
  acceptance check comes first, and the calls made are an initial part of the sequence
  acceptance check (180), application of the base manifests, wait for the namespaces
  (300).
\<close>

theorem Setup_acceptance_precedes_manifests:
  "(GWCMustBeAccepted (ConformanceTestSuite.Client suite)
        (ConformanceTestSuite.GatewayClassName suite) 180 = None \<longrightarrow>
      Setup suite =
        (suite,
         [Logf ''Test Setup: Ensuring GatewayClass has been accepted'' [],
          GWCMustBeAccepted_call (ConformanceTestSuite.GatewayClassName suite) 180],
         Failed))
   \<and> prefix
        [Logf ''Test Setup: Ensuring GatewayClass has been accepted'' [],
         GWCMustBeAccepted_call (ConformanceTestSuite.GatewayClassName suite) 180]
        (fst (snd (Setup suite)))
   \<and> prefix (fst (snd (Setup suite)))
        [Logf ''Test Setup: Ensuring GatewayClass has been accepted'' [],
         GWCMustBeAccepted_call (ConformanceTestSuite.GatewayClassName suite) 180,
         Logf ''Test Setup: Applying base manifests'' [],
         MustApplyWithCleanup_call (ConformanceTestSuite.BaseManifests suite)
           (ConformanceTestSuite.GatewayClassName suite) (Cleanup suite),
         Logf ''Test Setup: Ensuring Gateways and Pods from base manifests are ready'' [],
         NamespacesMustBeReady_call
           [''gateway-conformance-infra'', ''gateway-conformance-app-backend'',
            ''gateway-conformance-web-backend''] 300]"
  by (simp add: Setup_def Let_def split: option.splits)

theorem Setup_acceptance_precedes_manifests_witness:
  "GWCMustBeAccepted (ConformanceTestSuite.Client slowSuite)
     (ConformanceTestSuite.GatewayClassName slowSuite) 180 = None \<and>
   snd (snd (Setup slowSuite)) = Failed \<and>
   \<not> list_ex is_Apply (fst (snd (Setup slowSuite))) \<and>
   fst (Setup slowSuite) = slowSuite"
  using Setup_acceptance_precedes_manifests [of slowSuite]
  by (simp add: example_defs)

text \<open>
  C8: \<open>Setup\<close> assigns only the \<open>ControllerName\<close> field of the suite; the client, the
  round-tripper, the class name, the debug and cleanup flags, the base manifests, the
  applier, the exempt and supported features and the minimum channel are unchanged.
\<close>

theorem Setup_assigns_only_ControllerName:
  "ConformanceTestSuite.Client (fst (Setup suite)) = ConformanceTestSuite.Client suite \<and>
   ConformanceTestSuite.RoundTripper (fst (Setup suite)) = ConformanceTestSuite.RoundTripper suite \<and>
   ConformanceTestSuite.GatewayClassName (fst (Setup suite)) = ConformanceTestSuite.GatewayClassName suite \<and>
   ConformanceTestSuite.Debug (fst (Setup suite)) = ConformanceTestSuite.Debug suite \<and>
   Cleanup (fst (Setup suite)) = Cleanup suite \<and>
   ConformanceTestSuite.BaseManifests (fst (Setup suite)) = ConformanceTestSuite.BaseManifests suite \<and>
   Applier (fst (Setup suite)) = Applier suite \<and>
   ConformanceTestSuite.ExemptFeatures (fst (Setup suite)) = ConformanceTestSuite.ExemptFeatures suite \<and>
   ConformanceTestSuite.SupportedFeatures (fst (Setup suite)) = ConformanceTestSuite.SupportedFeatures suite \<and>
   ConformanceTestSuite.MinChannel (fst (Setup suite)) = ConformanceTestSuite.MinChannel suite \<and>
   fst (Setup suite) = suite\<lparr> ControllerName := ControllerName (fst (Setup suite)) \<rparr>"
  by (simp add: Setup_def Let_def split: option.splits)

theorem Setup_assigns_only_ControllerName_witness:
  "ControllerName standardSuite = [] \<and>
   fst (Setup standardSuite) =
     standardSuite\<lparr> ControllerName := ''example.net/gateway-controller'' \<rparr> \<and>
   snd (snd (Setup standardSuite)) = Returned"
  using Setup_assigns_only_ControllerName [of standardSuite]
  by (simp add: Setup_def example_defs)

end
